theory Spec2Isabelle
  imports Complex_Main
begin

section \<open>Data model of the 2p2c box Jacobian\<close>

text \<open>
  The class \<open>TwoPTwoCBoxJacobianBase\<close> of \<open>dumux/boxmodels/2p2c/2p2cboxjacobian.hh\<close>
  is embedded by explicit state passing. \<open>Scalar\<close> is read as the field of real numbers:
  sums and products are exact, so rounding, infinities and NaN of the machine type are
  outside the model. Fixed-size arrays indexed by a phase or component index
  (\<open>density[phaseIdx]\<close>, \<open>massfrac[compIdx][phaseIdx]\<close>) are functions of the index;
  vectors that the code writes by index (\<open>PrimaryVarVector\<close>, the global solution,
  \<open>staticVertexDat_\<close>) are lists. An index outside a vector is undefined behaviour in
  the program; a theorem about an entry that is written names the index bound it needs.
  A trailing underscore of a C++ member name is dropped.
\<close>

type_synonym Scalar = real
type_synonym PrimaryVarVector = "Scalar list"
type_synonym Solution = "PrimaryVarVector list"

text \<open>
  The compile-time properties of the \<open>TypeTag\<close> and the constants of
  \<open>TwoPTwoCIndices\<close> are declared in \<open>2p2cproperties.hh\<close>, which is not part of the
  sources at hand. They are taken as parameters, one field for each name of the
  \<open>enum\<close> at the head of the class, for \<open>Indices::comp2Mass\<close> and for
  \<open>mobilityUpwindAlpha\<close>.
\<close>

record TypeTag =
  numEq :: nat
  numPhases :: nat
  numComponents :: nat
  pressureIdx :: nat
  switchIdx :: nat
  wPhase :: nat
  nPhase :: nat
  wComp :: nat
  nComp :: nat
  wPhaseOnly :: int
  nPhaseOnly :: int
  bothPhases :: int
  pWsN :: int
  pNsW :: int
  formulation :: int
  comp2Mass :: "nat \<Rightarrow> nat"
  mobilityUpwindAlpha :: Scalar

text \<open>The fields of \<open>VertexData\<close> that the class reads.\<close>

record VertexData =
  saturation :: "nat \<Rightarrow> Scalar"
  pressure :: "nat \<Rightarrow> Scalar"
  density :: "nat \<Rightarrow> Scalar"
  mobility :: "nat \<Rightarrow> Scalar"
  massfrac :: "nat \<Rightarrow> nat \<Rightarrow> Scalar"
  porosity :: Scalar

text \<open>The fields of \<open>FluxData\<close> that the class reads; \<open>face_normal\<close> is \<open>face->normal\<close>.\<close>

record FluxData =
  upstreamIdx :: "nat \<Rightarrow> nat"
  downstreamIdx :: "nat \<Rightarrow> nat"
  vDarcyNormal :: "nat \<Rightarrow> Scalar"
  diffCoeffPM :: "nat \<Rightarrow> Scalar"
  densityAtIP :: "nat \<Rightarrow> Scalar"
  concentrationGrad :: "nat \<Rightarrow> Scalar list"
  face_normal :: "Scalar list"

record StaticVertexData =
  phaseState :: int
  wasSwitched :: bool
  oldPhaseState :: int

text \<open>
  One line written to \<open>std::cout\<close> by the variable switch: the vertex index, its
  coordinates, and the numerator and denominator of the printed ratio (for the two
  disappearance messages the saturation alone).
\<close>

datatype 'pos Message =
    WettingPhaseAppears nat 'pos Scalar Scalar
  | NonWettingPhaseAppears nat 'pos Scalar Scalar
  | NonWettingPhaseDisappears nat 'pos Scalar
  | WettingPhaseDisappears nat 'pos Scalar

text \<open>
  The state of one Jacobian object: its members \<open>staticVertexDat_\<close> and \<open>switchFlag_\<close>,
  the element data \<open>curElemDat_\<close> and \<open>prevElemDat_\<close> of the parent class, the
  function-local \<open>static VertexData vertexData\<close> of \<open>primaryVarSwitch_\<close>, which outlives
  each call, and the lines printed so far.
\<close>

record 'pos Jacobian =
  staticVertexDat :: "StaticVertexData list"
  switchFlag :: bool
  curElemDat :: "VertexData list"
  prevElemDat :: "VertexData list"
  vertexData :: VertexData
  cout :: "'pos Message list"

section \<open>Local storage and flux terms\<close>

text \<open>\<open>r[i] += v\<close> on a vector.\<close>

definition addTo :: "PrimaryVarVector \<Rightarrow> nat \<Rightarrow> Scalar \<Rightarrow> PrimaryVarVector" where
  "addTo r i v = r[i := r ! i + v]"

text \<open>\<open>r[i] -= v\<close> on a vector.\<close>

definition subFrom :: "PrimaryVarVector \<Rightarrow> nat \<Rightarrow> Scalar \<Rightarrow> PrimaryVarVector" where
  "subFrom r i v = r[i := r ! i - v]"

text \<open>\<open>result = 0\<close>: every entry of the vector is set to zero.\<close>

definition assignZero :: "PrimaryVarVector \<Rightarrow> PrimaryVarVector" where
  "assignZero r = map (\<lambda>_. 0) r"

text \<open>
  \<open>computeStorage\<close>, lines 136 to 157. The method is \<open>const\<close>; its one output is the
  vector \<open>result\<close>, passed by reference and overwritten.
\<close>

definition computeStorage ::
  "TypeTag \<Rightarrow> 'pos Jacobian \<Rightarrow> PrimaryVarVector \<Rightarrow> nat \<Rightarrow> bool \<Rightarrow> PrimaryVarVector" where
  "computeStorage tt J result scvIdx usePrevSol =
     (let elemDat = (if usePrevSol then prevElemDat J else curElemDat J);
          vertDat = elemDat ! scvIdx;
          result0 = assignZero result;
          result1 =
            foldl (\<lambda>res phaseIdx.
              foldl (\<lambda>res compIdx.
                addTo res (comp2Mass tt compIdx)
                  (density vertDat phaseIdx *
                   saturation vertDat phaseIdx *
                   massfrac vertDat compIdx phaseIdx))
              res [0..<numComponents tt])
            result0 [0..<numPhases tt]
      in map (\<lambda>x. x * porosity vertDat) result1)"

text \<open>\<open>computeAdvectiveFlux\<close>, lines 180 to 213; \<open>flux\<close> is accumulated into.\<close>

definition computeAdvectiveFlux ::
  "TypeTag \<Rightarrow> 'pos Jacobian \<Rightarrow> PrimaryVarVector \<Rightarrow> FluxData \<Rightarrow> PrimaryVarVector" where
  "computeAdvectiveFlux tt J flux vars =
     foldl (\<lambda>flx phaseIdx.
       let up = curElemDat J ! upstreamIdx vars phaseIdx;
           dn = curElemDat J ! downstreamIdx vars phaseIdx
       in foldl (\<lambda>flx compIdx.
            let flx1 =
                  (if mobilityUpwindAlpha tt > 0
                   then addTo flx (comp2Mass tt compIdx)
                          (vDarcyNormal vars phaseIdx *
                           mobilityUpwindAlpha tt *
                           (density up phaseIdx *
                            mobility up phaseIdx *
                            massfrac up compIdx phaseIdx))
                   else flx)
            in (if mobilityUpwindAlpha tt < 1
                then addTo flx1 (comp2Mass tt compIdx)
                       (vDarcyNormal vars phaseIdx *
                        (1 - mobilityUpwindAlpha tt) *
                        (density dn phaseIdx *
                         mobility dn phaseIdx *
                         massfrac dn compIdx phaseIdx))
                else flx1))
          flx [0..<numComponents tt])
     flux [0..<numPhases tt]"

text \<open>The scalar product \<open>operator*\<close> of two \<open>FieldVector\<close>s.\<close>

definition dot :: "Scalar list \<Rightarrow> Scalar list \<Rightarrow> Scalar" where
  "dot x y = foldl (\<lambda>r (a, b). r + a * b) 0 (zip x y)"

text \<open>The scalar \<open>tmp\<close> of \<open>computeDiffusiveFlux\<close> for one phase.\<close>

definition diffusiveScalar :: "FluxData \<Rightarrow> nat \<Rightarrow> Scalar" where
  "diffusiveScalar vars phaseIdx =
     diffCoeffPM vars phaseIdx * densityAtIP vars phaseIdx *
     dot (concentrationGrad vars phaseIdx) (face_normal vars)"

text \<open>\<open>computeDiffusiveFlux\<close>, lines 219 to 238.\<close>

definition computeDiffusiveFlux ::
  "TypeTag \<Rightarrow> PrimaryVarVector \<Rightarrow> FluxData \<Rightarrow> PrimaryVarVector" where
  "computeDiffusiveFlux tt flux vars =
     (let tmp = diffusiveScalar vars (wPhase tt);
          flux1 = addTo flux (comp2Mass tt (nComp tt)) tmp;
          flux2 = subFrom flux1 (comp2Mass tt (wComp tt)) tmp;
          tmp' = diffusiveScalar vars (nPhase tt);
          flux3 = addTo flux2 (comp2Mass tt (wComp tt)) tmp';
          flux4 = subFrom flux3 (comp2Mass tt (nComp tt)) tmp'
      in flux4)"

text \<open>
  \<open>computeFlux\<close>, lines 163 to 174. The constructor of \<open>FluxData\<close> is outside the
  sources at hand; the flux data \<open>vars\<close> of the face are passed in.
\<close>

definition computeFlux ::
  "TypeTag \<Rightarrow> 'pos Jacobian \<Rightarrow> PrimaryVarVector \<Rightarrow> FluxData \<Rightarrow> PrimaryVarVector" where
  "computeFlux tt J flux vars =
     computeDiffusiveFlux tt (computeAdvectiveFlux tt J (assignZero flux) vars) vars"

section \<open>The external collaborators of the variable switch\<close>

text \<open>
  The problem object, the material law, the solubility model \<open>multicomp()\<close> and the
  update methods of \<open>VertexData\<close> are outside the sources at hand. They are parameters
  of the embedding, each a total function of the arguments the call passes:
  \<open>temperature\<close> is \<open>asImp_()->temperature(sol)\<close>; \<open>pC\<close> is \<open>materialLaw().pC\<close> of the
  wetting saturation, the position and the temperature (its element and local position
  arguments are the same at every call); \<open>xWN\<close> and \<open>xAW\<close> are the solubility limits at a
  pressure and a temperature; the three update functions map the static vertex data to
  its value after the call.
\<close>

record 'pos Problem =
  temperature :: "PrimaryVarVector \<Rightarrow> Scalar"
  updateSaturations :: "PrimaryVarVector \<Rightarrow> int \<Rightarrow> VertexData \<Rightarrow> VertexData"
  pC :: "Scalar \<Rightarrow> 'pos \<Rightarrow> Scalar \<Rightarrow> Scalar"
  updatePressures :: "PrimaryVarVector \<Rightarrow> Scalar \<Rightarrow> VertexData \<Rightarrow> VertexData"
  updateMassFracs :: "PrimaryVarVector \<Rightarrow> int \<Rightarrow> Scalar \<Rightarrow> VertexData \<Rightarrow> VertexData"
  xWN :: "Scalar \<Rightarrow> Scalar \<Rightarrow> Scalar"
  xAW :: "Scalar \<Rightarrow> Scalar \<Rightarrow> Scalar"

text \<open>
  A vertex of the grid view is represented by what the class asks of it: its index
  \<open>dofEntityMapper().map(vert)\<close> and its position \<open>geometry().corner(0)\<close>.
\<close>

type_synonym 'pos Vertex = "nat \<times> 'pos"

section \<open>The primary variable switch\<close>

text \<open>\<open>(*globalSol)[i][k] = v\<close>.\<close>

definition setEntry :: "Solution \<Rightarrow> nat \<Rightarrow> nat \<Rightarrow> Scalar \<Rightarrow> Solution" where
  "setEntry globalSol i k v = globalSol[i := (globalSol ! i)[k := v]]"

text \<open>
  Lines 636 to 651 of \<open>primaryVarSwitch_\<close>: the saturations, phase pressures and mass
  fractions of the vertex, computed into the static \<open>vertexData\<close>.
\<close>

definition switchVertexData ::
  "TypeTag \<Rightarrow> 'pos Problem \<Rightarrow> Solution \<Rightarrow> nat \<Rightarrow> 'pos \<Rightarrow> 'pos Jacobian \<Rightarrow> VertexData" where
  "switchVertexData tt pb globalSol globalIdx globalPos J =
     (let phaseState0 = phaseState (staticVertexDat J ! globalIdx);
          temp = temperature pb (globalSol ! globalIdx);
          vd1 = updateSaturations pb (globalSol ! globalIdx) phaseState0 (vertexData J);
          pc = pC pb (saturation vd1 (wPhase tt)) globalPos temp;
          vd2 = updatePressures pb (globalSol ! globalIdx) pc vd1
      in updateMassFracs pb (globalSol ! globalIdx) phaseState0 temp vd2)"

text \<open>
  Lines 653 to 723 of \<open>primaryVarSwitch_\<close>: the chain of \<open>if\<close>s that checks whether a
  switch is necessary, given the vertex data \<open>vd\<close> just computed. It decides four
  values: \<open>wouldSwitch\<close>, \<open>newPhaseState\<close>, the global solution with the switch slot
  rewritten or not, and the line printed, if any.
\<close>

definition switchDecision ::
  "TypeTag \<Rightarrow> 'pos Problem \<Rightarrow> Solution \<Rightarrow> nat \<Rightarrow> 'pos \<Rightarrow> 'pos Jacobian \<Rightarrow> VertexData
     \<Rightarrow> bool \<times> int \<times> Solution \<times> 'pos Message list" where
  "switchDecision tt pb globalSol globalIdx globalPos J vd =
     (let phaseState0 = phaseState (staticVertexDat J ! globalIdx);
          temp = temperature pb (globalSol ! globalIdx)
      in if phaseState0 = nPhaseOnly tt then
           (let xWNmax = xWN pb (pressure vd (nPhase tt)) temp;
                wouldSwitch = (massfrac vd (wComp tt) (nPhase tt) > xWNmax);
                xWNmax' = (if wasSwitched (staticVertexDat J ! globalIdx)
                           then xWNmax * (1 + 1 / 100) else xWNmax)
            in if massfrac vd (wComp tt) (nPhase tt) > xWNmax'
               then (wouldSwitch, bothPhases tt,
                     (if formulation tt = pNsW tt
                      then setEntry globalSol globalIdx (switchIdx tt) 0
                      else if formulation tt = pWsN tt
                      then setEntry globalSol globalIdx (switchIdx tt) 1
                      else globalSol),
                     [WettingPhaseAppears globalIdx globalPos
                        (massfrac vd (wComp tt) (nPhase tt)) xWNmax'])
               else (wouldSwitch, phaseState0, globalSol, []))
         else if phaseState0 = wPhaseOnly tt then
           (let xAWmax = xAW pb (pressure vd (wPhase tt)) temp;
                wouldSwitch = (massfrac vd (nComp tt) (wPhase tt) > xAWmax);
                xAWmax' = (if wasSwitched (staticVertexDat J ! globalIdx)
                           then xAWmax * (1 + 1 / 100) else xAWmax)
            in if massfrac vd (nComp tt) (wPhase tt) > xAWmax'
               then (wouldSwitch, bothPhases tt,
                     (if formulation tt = pNsW tt
                      then setEntry globalSol globalIdx (switchIdx tt) 1
                      else if formulation tt = pWsN tt
                      then setEntry globalSol globalIdx (switchIdx tt) 0
                      else globalSol),
                     [NonWettingPhaseAppears globalIdx globalPos
                        (massfrac vd (nComp tt) (wPhase tt)) xAWmax'])
               else (wouldSwitch, phaseState0, globalSol, []))
         else if phaseState0 = bothPhases tt then
           (let Smin = 0
            in if saturation vd (nPhase tt) \<le> Smin
               then (True, wPhaseOnly tt,
                     setEntry globalSol globalIdx (switchIdx tt)
                       (xAW pb (pressure vd (nPhase tt)) temp),
                     [NonWettingPhaseDisappears globalIdx globalPos
                        (saturation vd (nPhase tt))])
               else if saturation vd (wPhase tt) \<le> Smin
               then (True, nPhaseOnly tt,
                     setEntry globalSol globalIdx (switchIdx tt)
                       (xWN pb (pressure vd (nPhase tt)) temp),
                     [WettingPhaseDisappears globalIdx globalPos
                        (saturation vd (wPhase tt))])
               else (False, phaseState0, globalSol, []))
         else (False, phaseState0, globalSol, []))"

text \<open>
  \<open>primaryVarSwitch_\<close>, lines 628 to 729: the vertex data, the decision, and the two
  writes to \<open>staticVertexDat_[globalIdx]\<close> of lines 725 and 726. The result is the
  returned flag, the global solution and the object after the call.
\<close>

definition primaryVarSwitch ::
  "TypeTag \<Rightarrow> 'pos Problem \<Rightarrow> Solution \<Rightarrow> nat \<Rightarrow> 'pos \<Rightarrow> 'pos Jacobian
     \<Rightarrow> bool \<times> Solution \<times> 'pos Jacobian" where
  "primaryVarSwitch tt pb globalSol globalIdx globalPos J =
     (let phaseState0 = phaseState (staticVertexDat J ! globalIdx);
          vd = switchVertexData tt pb globalSol globalIdx globalPos J;
          (wouldSwitch, newPhaseState, globalSol', printed) =
            switchDecision tt pb globalSol globalIdx globalPos J vd
      in (phaseState0 \<noteq> newPhaseState,
          globalSol',
          J\<lparr>staticVertexDat :=
               (staticVertexDat J)[globalIdx :=
                  (staticVertexDat J ! globalIdx)
                    \<lparr>phaseState := newPhaseState, wasSwitched := wouldSwitch\<rparr>],
            vertexData := vd,
            cout := cout J @ printed\<rparr>))"

section \<open>The static data of all vertices\<close>

definition switched :: "'pos Jacobian \<Rightarrow> bool" where
  "switched J = switchFlag J"

definition setSwitched :: "'pos Jacobian \<Rightarrow> bool \<Rightarrow> 'pos Jacobian" where
  "setSwitched J yesno = J\<lparr>switchFlag := yesno\<rparr>"

text \<open>
  The vertex loop of \<open>updateStaticData\<close>, lines 294 to 303, on the vertices still to
  visit: \<open>wasSwitched = primaryVarSwitch_(...) || wasSwitched\<close>. The call is the left
  operand, so it is made at every vertex.
\<close>

fun switchLoop ::
  "TypeTag \<Rightarrow> 'pos Problem \<Rightarrow> 'pos Vertex list \<Rightarrow> bool \<times> Solution \<times> 'pos Jacobian
     \<Rightarrow> bool \<times> Solution \<times> 'pos Jacobian" where
  "switchLoop tt pb [] acc = acc"
| "switchLoop tt pb (v # vs) (wasSw, curGlobalSol, J) =
     (case primaryVarSwitch tt pb curGlobalSol (fst v) (snd v) J of
        (r, curGlobalSol', J') \<Rightarrow> switchLoop tt pb vs (r \<or> wasSw, curGlobalSol', J'))"

text \<open>
  \<open>gridView_.comm().max(wasSwitched)\<close> is a collective operation of the grid's
  communication object: every process passes its value and every process receives the
  maximum of all of them. From the side of one process it is the maximum of what it
  passes itself and what the other processes pass, here the list \<open>others\<close> (empty in
  a sequential run).
\<close>

definition comm_max :: "bool list \<Rightarrow> bool \<Rightarrow> bool" where
  "comm_max others b = foldl max b others"

text \<open>
  \<open>updateStaticData\<close>, lines 288 to 311, on one process; \<open>vertices\<close> is the vertex range
  of its grid view. The parameter \<open>oldGlobalSol\<close> of the method is not used by it.
\<close>

definition updateStaticData ::
  "TypeTag \<Rightarrow> 'pos Problem \<Rightarrow> 'pos Vertex list \<Rightarrow> bool list \<Rightarrow> Solution \<Rightarrow> 'pos Jacobian
     \<Rightarrow> Solution \<times> 'pos Jacobian" where
  "updateStaticData tt pb vertices others curGlobalSol J =
     (case switchLoop tt pb vertices (False, curGlobalSol, J) of
        (wasSw, curGlobalSol', J') \<Rightarrow>
          (curGlobalSol', setSwitched J' (comm_max others wasSw)))"

text \<open>
  The values returned by the calls of \<open>primaryVarSwitch_\<close> that the vertex loop makes,
  in the order of the visit. The program does not keep them; the list serves to state
  what the loop accumulates.
\<close>

fun switchResults ::
  "TypeTag \<Rightarrow> 'pos Problem \<Rightarrow> 'pos Vertex list \<Rightarrow> Solution \<Rightarrow> 'pos Jacobian \<Rightarrow> bool list" where
  "switchResults tt pb [] curGlobalSol J = []"
| "switchResults tt pb (v # vs) curGlobalSol J =
     (case primaryVarSwitch tt pb curGlobalSol (fst v) (snd v) J of
        (r, curGlobalSol', J') \<Rightarrow> r # switchResults tt pb vs curGlobalSol' J')"

text \<open>
  A run on several mesh partitions: one process for each partition, with its own
  vertex range, solution and Jacobian object, no memory shared. Every process runs
  \<open>updateStaticData\<close>; at the collective call it passes the flag of its own loop and the
  others pass theirs.
\<close>

type_synonym 'pos Process = "'pos Vertex list \<times> Solution \<times> 'pos Jacobian"

definition localSwitched :: "TypeTag \<Rightarrow> 'pos Problem \<Rightarrow> 'pos Process \<Rightarrow> bool" where
  "localSwitched tt pb proc =
     (case proc of (vertices, curGlobalSol, J) \<Rightarrow>
        fst (switchLoop tt pb vertices (False, curGlobalSol, J)))"

definition updateStaticData_all ::
  "TypeTag \<Rightarrow> 'pos Problem \<Rightarrow> 'pos Process list \<Rightarrow> (Solution \<times> 'pos Jacobian) list" where
  "updateStaticData_all tt pb procs =
     map (\<lambda>p. case procs ! p of (vertices, curGlobalSol, J) \<Rightarrow>
            updateStaticData tt pb vertices
              (map (localSwitched tt pb) (take p procs @ drop (Suc p) procs))
              curGlobalSol J)
       [0..<length procs]"

text \<open>
  \<open>updateOldPhaseState\<close>, lines 316 to 323, and \<open>resetPhaseState\<close>, lines 341 to 346;
  \<open>numVertices\<close> is \<open>gridView_.size(dim)\<close>, the size the constructor gives to
  \<open>staticVertexDat_\<close>.
\<close>

definition updateOldPhaseState :: "nat \<Rightarrow> 'pos Jacobian \<Rightarrow> 'pos Jacobian" where
  "updateOldPhaseState numVertices J =
     J\<lparr>staticVertexDat :=
         foldl (\<lambda>dat i. dat[i := (dat ! i)\<lparr>oldPhaseState := phaseState (dat ! i),
                                          wasSwitched := False\<rparr>])
           (staticVertexDat J) [0..<numVertices]\<rparr>"

definition resetPhaseState :: "nat \<Rightarrow> 'pos Jacobian \<Rightarrow> 'pos Jacobian" where
  "resetPhaseState numVertices J =
     J\<lparr>staticVertexDat :=
         foldl (\<lambda>dat i. dat[i := (dat ! i)\<lparr>phaseState := oldPhaseState (dat ! i)\<rparr>])
           (staticVertexDat J) [0..<numVertices]\<rparr>"

section \<open>Restart files\<close>















section \<open>The advective contribution of one phase\<close>

text \<open>
  What one pass of the inner loop adds to the slot of a component for one phase: the
  upstream part when \<open>mobilityUpwindAlpha > 0\<close>, the downstream part when it is below one.
\<close>

definition advTerm :: "TypeTag \<Rightarrow> 'pos Jacobian \<Rightarrow> FluxData \<Rightarrow> nat \<Rightarrow> nat \<Rightarrow> Scalar" where
  "advTerm tt J vars phaseIdx compIdx =
     (if mobilityUpwindAlpha tt > 0
      then vDarcyNormal vars phaseIdx * mobilityUpwindAlpha tt *
           (density (curElemDat J ! upstreamIdx vars phaseIdx) phaseIdx *
            mobility (curElemDat J ! upstreamIdx vars phaseIdx) phaseIdx *
            massfrac (curElemDat J ! upstreamIdx vars phaseIdx) compIdx phaseIdx)
      else 0) +
     (if mobilityUpwindAlpha tt < 1
      then vDarcyNormal vars phaseIdx * (1 - mobilityUpwindAlpha tt) *
           (density (curElemDat J ! downstreamIdx vars phaseIdx) phaseIdx *
            mobility (curElemDat J ! downstreamIdx vars phaseIdx) phaseIdx *
            massfrac (curElemDat J ! downstreamIdx vars phaseIdx) compIdx phaseIdx)
      else 0)"

section \<open>Example data\<close>

text \<open>
  The indices of the isothermal 2p2c model in the pressure-wetting,
  saturation-non-wetting formulation, with full upstream weighting.
\<close>

definition exampleTypeTag :: TypeTag where
  "exampleTypeTag =
     \<lparr>numEq = 2, numPhases = 2, numComponents = 2,
      pressureIdx = 0, switchIdx = 1,
      wPhase = 0, nPhase = 1, wComp = 0, nComp = 1,
      wPhaseOnly = 1, nPhaseOnly = 0, bothPhases = 2,
      pWsN = 0, pNsW = 1, formulation = 0,
      comp2Mass = (\<lambda>compIdx. compIdx),
      mobilityUpwindAlpha = 1\<rparr>"

definition exampleVertexData :: "Scalar \<Rightarrow> VertexData" where
  "exampleVertexData Sn =
     \<lparr>saturation = (\<lambda>phaseIdx. if phaseIdx = 0 then 1 - Sn else Sn),
      pressure = (\<lambda>phaseIdx. if phaseIdx = 0 then 100000 else 101000),
      density = (\<lambda>phaseIdx. if phaseIdx = 0 then 1000 else 2),
      mobility = (\<lambda>phaseIdx. if phaseIdx = 0 then 500 * (1 - Sn) else 40000 * Sn),
      massfrac = (\<lambda>compIdx phaseIdx. if compIdx = phaseIdx then 99 / 100 else 1 / 100),
      porosity = 3 / 10\<rparr>"

text \<open>
  Closure relations for the example: constant temperature and capillary pressure, a
  solubility of the non-wetting component proportional to the pressure; in a
  single-phase state the switch slot is the dissolved mass fraction, with both phases
  it is the non-wetting saturation.
\<close>

definition exampleProblem :: "Scalar list Problem" where
  "exampleProblem =
     \<lparr>temperature = (\<lambda>sol. 283),
      updateSaturations = (\<lambda>sol ps vd.
        vd\<lparr>saturation :=
             (if ps = 2 then (\<lambda>phaseIdx. if phaseIdx = 0 then 1 - sol ! 1 else sol ! 1)
              else if ps = 1 then (\<lambda>phaseIdx. if phaseIdx = 0 then 1 else 0)
              else (\<lambda>phaseIdx. if phaseIdx = 0 then 0 else 1))\<rparr>),
      pC = (\<lambda>Sw pos temp. 1000),
      updatePressures = (\<lambda>sol pc vd.
        vd\<lparr>pressure := (\<lambda>phaseIdx. if phaseIdx = 0 then sol ! 0 else sol ! 0 + pc)\<rparr>),
      updateMassFracs = (\<lambda>sol ps temp vd.
        vd\<lparr>massfrac :=
             (if ps = 2 then (\<lambda>compIdx phaseIdx. if compIdx = phaseIdx then 99 / 100 else 1 / 100)
              else (\<lambda>compIdx phaseIdx. if compIdx = phaseIdx then 1 - sol ! 1 else sol ! 1))\<rparr>),
      xWN = (\<lambda>p temp. 2 / 100),
      xAW = (\<lambda>p temp. p / 10000000)\<rparr>"

definition exampleJacobian :: "int \<Rightarrow> bool \<Rightarrow> Scalar list Jacobian" where
  "exampleJacobian ps was =
     \<lparr>staticVertexDat =
        [\<lparr>phaseState = 2, wasSwitched = False, oldPhaseState = 2\<rparr>,
         \<lparr>phaseState = ps, wasSwitched = was, oldPhaseState = 0\<rparr>],
      switchFlag = False,
      curElemDat = [exampleVertexData (1 / 4), exampleVertexData (1 / 2)],
      prevElemDat = [exampleVertexData (1 / 5), exampleVertexData (3 / 5)],
      vertexData = exampleVertexData 0,
      cout = []\<rparr>"

definition exampleFluxData :: FluxData where
  "exampleFluxData =
     \<lparr>upstreamIdx = (\<lambda>phaseIdx. if phaseIdx = 0 then 0 else 1),
      downstreamIdx = (\<lambda>phaseIdx. if phaseIdx = 0 then 1 else 0),
      vDarcyNormal = (\<lambda>phaseIdx. if phaseIdx = 0 then 1 / 1000 else 1 / 100),
      diffCoeffPM = (\<lambda>phaseIdx. if phaseIdx = 0 then 1 / 4 else 1 / 2),
      densityAtIP = (\<lambda>phaseIdx. if phaseIdx = 0 then 1000 else 2),
      concentrationGrad = (\<lambda>phaseIdx. if phaseIdx = 0 then [1, 2] else [3, - 1]),
      face_normal = [1 / 2, 1 / 2]\<rparr>"

text \<open>
  A solution in which vertex 1 holds more dissolved non-wetting component than the
  solubility allows, the switch evaluation of that vertex, and the evaluation that
  follows it on the solution and the object the first one leaves.
\<close>

definition exampleSolution :: Solution where
  "exampleSolution = [ [100000, 1 / 4], [100000, 12 / 1000] ]"

definition exampleFirstSwitch :: "bool \<times> Solution \<times> Scalar list Jacobian" where
  "exampleFirstSwitch =
     primaryVarSwitch exampleTypeTag exampleProblem exampleSolution 1 [0, 0]
       (exampleJacobian 1 False)"

definition exampleSecondSwitch :: "bool \<times> Solution \<times> Scalar list Jacobian" where
  "exampleSecondSwitch =
     primaryVarSwitch exampleTypeTag exampleProblem (fst (snd exampleFirstSwitch)) 1 [0, 0]
       (snd (snd exampleFirstSwitch))"

text \<open>Two processes, each with one vertex to visit; the vertex of the second switches.\<close>

definition exampleProcesses :: "Scalar list Process list" where
  "exampleProcesses =
     [([(0, [0, 0])], exampleSolution, exampleJacobian 1 False),
      ([(1, [0, 0])], exampleSolution, exampleJacobian 1 False)]"


section \<open>The fields of the example data\<close>

lemma exampleTypeTag_sel:
  "numEq exampleTypeTag = 2" "numPhases exampleTypeTag = 2" "numComponents exampleTypeTag = 2"
  "pressureIdx exampleTypeTag = 0" "switchIdx exampleTypeTag = 1"
  "wPhase exampleTypeTag = 0" "nPhase exampleTypeTag = 1"
  "wComp exampleTypeTag = 0" "nComp exampleTypeTag = 1"
  "wPhaseOnly exampleTypeTag = 1" "nPhaseOnly exampleTypeTag = 0" "bothPhases exampleTypeTag = 2"
  "pWsN exampleTypeTag = 0" "pNsW exampleTypeTag = 1" "formulation exampleTypeTag = 0"
  "comp2Mass exampleTypeTag c = c" "mobilityUpwindAlpha exampleTypeTag = 1"
  by (simp_all add: exampleTypeTag_def)

lemma exampleVertexData_sel:
  "saturation (exampleVertexData Sn) p = (if p = 0 then 1 - Sn else Sn)"
  "pressure (exampleVertexData Sn) p = (if p = 0 then 100000 else 101000)"
  "density (exampleVertexData Sn) p = (if p = 0 then 1000 else 2)"
  "mobility (exampleVertexData Sn) p = (if p = 0 then 500 * (1 - Sn) else 40000 * Sn)"
  "massfrac (exampleVertexData Sn) c p = (if c = p then 99 / 100 else 1 / 100)"
  "porosity (exampleVertexData Sn) = 3 / 10"
  by (simp_all add: exampleVertexData_def)

lemma exampleJacobian_sel:
  "staticVertexDat (exampleJacobian ps was) =
     [\<lparr>phaseState = 2, wasSwitched = False, oldPhaseState = 2\<rparr>,
      \<lparr>phaseState = ps, wasSwitched = was, oldPhaseState = 0\<rparr>]"
  "switchFlag (exampleJacobian ps was) = False"
  "curElemDat (exampleJacobian ps was) = [exampleVertexData (1 / 4), exampleVertexData (1 / 2)]"
  "prevElemDat (exampleJacobian ps was) = [exampleVertexData (1 / 5), exampleVertexData (3 / 5)]"
  "vertexData (exampleJacobian ps was) = exampleVertexData 0"
  "cout (exampleJacobian ps was) = []"
  by (simp_all add: exampleJacobian_def)

lemma exampleFluxData_sel:
  "upstreamIdx exampleFluxData p = (if p = 0 then 0 else 1)"
  "downstreamIdx exampleFluxData p = (if p = 0 then 1 else 0)"
  "vDarcyNormal exampleFluxData p = (if p = 0 then 1 / 1000 else 1 / 100)"
  "diffCoeffPM exampleFluxData p = (if p = 0 then 1 / 4 else 1 / 2)"
  "densityAtIP exampleFluxData p = (if p = 0 then 1000 else 2)"
  "concentrationGrad exampleFluxData p = (if p = 0 then [1, 2] else [3, - 1])"
  "face_normal exampleFluxData = [1 / 2, 1 / 2]"
  by (simp_all add: exampleFluxData_def)

lemma exampleProblem_sel:
  "temperature exampleProblem sol = 283"
  "saturation (updateSaturations exampleProblem sol ps vd) p =
     (if ps = 2 then (if p = 0 then 1 - sol ! 1 else sol ! 1)
      else if ps = 1 then (if p = 0 then 1 else 0)
      else (if p = 0 then 0 else 1))"
  "pC exampleProblem Sw pos temp = 1000"
  "pressure (updatePressures exampleProblem sol pc vd) p = (if p = 0 then sol ! 0 else sol ! 0 + pc)"
  "saturation (updatePressures exampleProblem sol pc vd) = saturation vd"
  "massfrac (updateMassFracs exampleProblem sol ps temp vd) c p =
     (if ps = 2 then (if c = p then 99 / 100 else 1 / 100)
      else (if c = p then 1 - sol ! 1 else sol ! 1))"
  "saturation (updateMassFracs exampleProblem sol ps temp vd) = saturation vd"
  "pressure (updateMassFracs exampleProblem sol ps temp vd) = pressure vd"
  "xWN exampleProblem pr temp = 2 / 100"
  "xAW exampleProblem pr temp = pr / 10000000"
  by (simp_all add: exampleProblem_def)

lemma exampleSwitchVertexData:
  "saturation (switchVertexData exampleTypeTag exampleProblem sol i pos J) p =
     (if phaseState (staticVertexDat J ! i) = 2 then (if p = 0 then 1 - sol ! i ! 1 else sol ! i ! 1)
      else if phaseState (staticVertexDat J ! i) = 1 then (if p = 0 then 1 else 0)
      else (if p = 0 then 0 else 1))"
  "pressure (switchVertexData exampleTypeTag exampleProblem sol i pos J) p =
     (if p = 0 then sol ! i ! 0 else sol ! i ! 0 + 1000)"
  "massfrac (switchVertexData exampleTypeTag exampleProblem sol i pos J) c p =
     (if phaseState (staticVertexDat J ! i) = 2 then (if c = p then 99 / 100 else 1 / 100)
      else (if c = p then 1 - sol ! i ! 1 else sol ! i ! 1))"
  by (simp_all add: switchVertexData_def Let_def exampleProblem_sel exampleTypeTag_sel)

lemma exampleFirstSwitch_sel:
  "fst (snd exampleFirstSwitch) = [ [100000, 1 / 4], [100000, 0] ]"
  "staticVertexDat (snd (snd exampleFirstSwitch)) =
     [\<lparr>phaseState = 2, wasSwitched = False, oldPhaseState = 2\<rparr>,
      \<lparr>phaseState = 2, wasSwitched = True, oldPhaseState = 0\<rparr>]"
  by (simp_all add: exampleFirstSwitch_def exampleSolution_def primaryVarSwitch_def
        switchDecision_def Let_def split_def setEntry_def exampleSwitchVertexData
        exampleTypeTag_sel exampleJacobian_sel exampleProblem_sel)

lemma lessThan_two: "{..<2::nat} = {0, 1}"
  by auto

section \<open>Vectors written by index\<close>

lemma length_addTo: "length (addTo r i v) = length r"
  by (simp add: addTo_def)

lemma nth_addTo: "j < length r \<Longrightarrow> addTo r i v ! j = r ! j + (if i = j then v else 0)"
  by (simp add: addTo_def nth_list_update)

lemma addTo_addTo: "addTo (addTo r i a) i b = addTo r i (a + b)"
  by (cases "i < length r") (simp_all add: addTo_def add.assoc not_less list_update_beyond)

lemma addTo_zero: "addTo r i 0 = r"
  by (simp add: addTo_def)

lemma length_subFrom: "length (subFrom r i v) = length r"
  by (simp add: subFrom_def)

lemma nth_subFrom: "j < length r \<Longrightarrow> subFrom r i v ! j = r ! j - (if i = j then v else 0)"
  by (simp add: subFrom_def nth_list_update)

lemma length_assignZero: "length (assignZero r) = length r"
  by (simp add: assignZero_def)

lemma nth_assignZero: "j < length r \<Longrightarrow> assignZero r ! j = 0"
  by (simp add: assignZero_def)

lemma assignZero_replicate: "assignZero r = assignZero (replicate (length r) 0)"
  by (simp add: assignZero_def map_replicate_const)

text \<open>The nested iteration over phases and components, each step an \<open>addTo\<close>.\<close>

lemma length_foldl_addTo: "length (foldl (\<lambda>res c. addTo res (g c) (h c)) r cs) = length r"
  by (induction cs arbitrary: r) (simp_all add: length_addTo)

lemma nth_foldl_addTo:
  "j < length r \<Longrightarrow>
   foldl (\<lambda>res c. addTo res (g c) (h c)) r cs ! j =
     r ! j + (\<Sum>c\<leftarrow>cs. if g c = j then h c else 0)"
  by (induction cs arbitrary: r) (simp_all add: length_addTo nth_addTo add.assoc)

lemma length_foldl2_addTo:
  "length (foldl (\<lambda>res p. foldl (\<lambda>res c. addTo res (g c) (h p c)) res cs) r ps) = length r"
  by (induction ps arbitrary: r) (simp_all add: length_foldl_addTo)

lemma nth_foldl2_addTo:
  "j < length r \<Longrightarrow>
   foldl (\<lambda>res p. foldl (\<lambda>res c. addTo res (g c) (h p c)) res cs) r ps ! j =
     r ! j + (\<Sum>p\<leftarrow>ps. \<Sum>c\<leftarrow>cs. if g c = j then h p c else 0)"
  by (induction ps arbitrary: r) (simp_all add: length_foldl_addTo nth_foldl_addTo add.assoc)

lemma sum_list_select:
  assumes "inj_on g {..<n}" "c < n"
  shows "(\<Sum>k\<leftarrow>[0..<n]. if g k = g c then h k else 0) = (h c :: real)"
proof -
  have "(\<Sum>k\<leftarrow>[0..<n]. if g k = g c then h k else 0) =
      (\<Sum>k\<in>{0..<n}. if g k = g c then h k else 0)"
    by (simp add: interv_sum_list_conv_sum_set_nat)
  also have "\<dots> = (\<Sum>k\<in>{0..<n}. if k = c then h k else 0)"
    using assms by (intro sum.cong) (auto simp: inj_on_def)
  also have "\<dots> = h c"
    using assms by simp
  finally show ?thesis .
qed

lemma nth_phase_comp:
  assumes "inj_on g {..<nc}" "c < nc" "g c < length r"
  shows "foldl (\<lambda>res p. foldl (\<lambda>res c. addTo res (g c) (h p c)) res [0..<nc]) r [0..<np] ! g c =
     r ! g c + (\<Sum>p<np. h p c)"
proof -
  have "(\<Sum>p\<leftarrow>[0..<np]. \<Sum>k\<leftarrow>[0..<nc]. if g k = g c then h p k else 0) =
      (\<Sum>p\<leftarrow>[0..<np]. h p c)"
    using assms by (simp add: sum_list_select)
  also have "\<dots> = (\<Sum>p<np. h p c)"
    by (simp add: interv_sum_list_conv_sum_set_nat atLeast0LessThan)
  finally show ?thesis
    using assms by (simp add: nth_foldl2_addTo)
qed

section \<open>Storage\<close>

text \<open>
  Claim C1. For every sub-control-volume index \<open>scvIdx\<close> and both values of
  \<open>usePrevSol\<close>, \<open>computeStorage\<close> leaves in the mass equation slot \<open>comp2Mass compIdx\<close> of
  every component the porosity times the sum over the phases of density times saturation
  times mass fraction of that component, all read from the selected vertex data
  (\<open>prevElemDat_\<close> when \<open>usePrevSol\<close> is set, \<open>curElemDat_\<close> otherwise). The method
  returns nothing but the vector: it has the length of the vector passed in and does not
  depend on what that vector held. The slots of distinct components are distinct
  (\<open>comp2Mass\<close> is injective on the component indices) and lie inside the vector. With
  \<open>numPhases = 2\<close> the sum is the sum over the two phases.
\<close>

theorem computeStorage_slot:
  assumes "inj_on (comp2Mass tt) {..<numComponents tt}"
    and "compIdx < numComponents tt"
    and "comp2Mass tt compIdx < length result"
  shows "computeStorage tt J result scvIdx usePrevSol ! comp2Mass tt compIdx =
       porosity ((if usePrevSol then prevElemDat J else curElemDat J) ! scvIdx) *
       (\<Sum>phaseIdx<numPhases tt.
          density ((if usePrevSol then prevElemDat J else curElemDat J) ! scvIdx) phaseIdx *
          saturation ((if usePrevSol then prevElemDat J else curElemDat J) ! scvIdx) phaseIdx *
          massfrac ((if usePrevSol then prevElemDat J else curElemDat J) ! scvIdx) compIdx phaseIdx)
     \<and> length (computeStorage tt J result scvIdx usePrevSol) = length result
     \<and> computeStorage tt J result scvIdx usePrevSol =
         computeStorage tt J (replicate (length result) 0) scvIdx usePrevSol"
proof -
  define vertDat where "vertDat = (if usePrevSol then prevElemDat J else curElemDat J) ! scvIdx"
  define h where "h = (\<lambda>p c. density vertDat p * saturation vertDat p * massfrac vertDat c p)"
  define r1 where "r1 = foldl (\<lambda>res p. foldl (\<lambda>res c. addTo res (comp2Mass tt c) (h p c))
                          res [0..<numComponents tt]) (assignZero result) [0..<numPhases tt]"
  have len: "comp2Mass tt compIdx < length (assignZero result)"
    using assms(3) by (simp add: length_assignZero)
  have "r1 ! comp2Mass tt compIdx =
      assignZero result ! comp2Mass tt compIdx + (\<Sum>p<numPhases tt. h p compIdx)"
    unfolding r1_def by (rule nth_phase_comp [OF assms(1,2) len])
  then have r1: "r1 ! comp2Mass tt compIdx = (\<Sum>p<numPhases tt. h p compIdx)"
    using assms(3) by (simp add: nth_assignZero)
  have lr1: "length r1 = length result"
    unfolding r1_def by (simp add: length_foldl2_addTo length_assignZero)
  have unfold: "computeStorage tt J result scvIdx usePrevSol = map (\<lambda>x. x * porosity vertDat) r1"
    by (simp add: computeStorage_def Let_def vertDat_def r1_def h_def)
  have slot: "computeStorage tt J result scvIdx usePrevSol ! comp2Mass tt compIdx =
      porosity vertDat * (\<Sum>p<numPhases tt. h p compIdx)"
    using assms(3) r1 lr1 by (simp add: unfold)
  have indep: "computeStorage tt J result scvIdx usePrevSol =
      computeStorage tt J (replicate (length result) 0) scvIdx usePrevSol"
    unfolding computeStorage_def Let_def
    by (subst assignZero_replicate) simp
  have lenC: "length (computeStorage tt J result scvIdx usePrevSol) = length result"
    using lr1 by (simp add: unfold)
  from slot [unfolded h_def vertDat_def] lenC indep show ?thesis
    by (intro conjI)
qed

theorem computeStorage_slot_witness:
  "inj_on (comp2Mass exampleTypeTag) {..<numComponents exampleTypeTag} \<and>
   1 < numComponents exampleTypeTag \<and>
   comp2Mass exampleTypeTag 1 < length [5, 7 :: real] \<and>
   computeStorage exampleTypeTag (exampleJacobian 1 False) [5, 7] 0 False ! 1 = 4797 / 2000 \<and>
   computeStorage exampleTypeTag (exampleJacobian 1 False) [5, 7] 1 True ! 1 = 3891 / 2500"
proof -
  have h: "inj_on (comp2Mass exampleTypeTag) {..<numComponents exampleTypeTag}"
     "1 < numComponents exampleTypeTag" "comp2Mass exampleTypeTag 1 < length [5, 7 :: real]"
    by (simp_all add: exampleTypeTag_sel inj_on_def)
  show ?thesis
    using h computeStorage_slot [OF h, of "exampleJacobian 1 False" 0 False, THEN conjunct1]
      computeStorage_slot [OF h, of "exampleJacobian 1 False" 1 True, THEN conjunct1]
    by (simp add: exampleTypeTag_sel exampleJacobian_sel exampleVertexData_sel lessThan_two)
qed

section \<open>Advective flux\<close>

lemma computeAdvectiveFlux_addTo:
  "computeAdvectiveFlux tt J flux vars =
     foldl (\<lambda>res p. foldl (\<lambda>res c. addTo res (comp2Mass tt c) (advTerm tt J vars p c))
              res [0..<numComponents tt]) flux [0..<numPhases tt]"
proof (cases "0 < mobilityUpwindAlpha tt"; cases "mobilityUpwindAlpha tt < 1")
qed (simp_all add: computeAdvectiveFlux_def advTerm_def Let_def addTo_addTo addTo_zero)

lemma advTerm_blend:
  assumes "0 \<le> mobilityUpwindAlpha tt" "mobilityUpwindAlpha tt \<le> 1"
  shows "advTerm tt J vars p c =
     vDarcyNormal vars p *
       (mobilityUpwindAlpha tt *
          (density (curElemDat J ! upstreamIdx vars p) p *
           mobility (curElemDat J ! upstreamIdx vars p) p *
           massfrac (curElemDat J ! upstreamIdx vars p) c p) +
        (1 - mobilityUpwindAlpha tt) *
          (density (curElemDat J ! downstreamIdx vars p) p *
           mobility (curElemDat J ! downstreamIdx vars p) p *
           massfrac (curElemDat J ! downstreamIdx vars p) c p))"
proof -
  consider "mobilityUpwindAlpha tt = 0" | "mobilityUpwindAlpha tt = 1"
    | "0 < mobilityUpwindAlpha tt" "mobilityUpwindAlpha tt < 1"
    using assms by fastforce
  then show ?thesis
    by cases (simp_all add: advTerm_def algebra_simps)
qed

lemma computeAdvectiveFlux_nth:
  assumes "inj_on (comp2Mass tt) {..<numComponents tt}"
    and "compIdx < numComponents tt"
    and "comp2Mass tt compIdx < length flux"
    and "0 \<le> mobilityUpwindAlpha tt" and "mobilityUpwindAlpha tt \<le> 1"
  shows "computeAdvectiveFlux tt J flux vars ! comp2Mass tt compIdx =
     flux ! comp2Mass tt compIdx +
     (\<Sum>phaseIdx<numPhases tt.
        vDarcyNormal vars phaseIdx *
          (mobilityUpwindAlpha tt *
             (density (curElemDat J ! upstreamIdx vars phaseIdx) phaseIdx *
              mobility (curElemDat J ! upstreamIdx vars phaseIdx) phaseIdx *
              massfrac (curElemDat J ! upstreamIdx vars phaseIdx) compIdx phaseIdx) +
           (1 - mobilityUpwindAlpha tt) *
             (density (curElemDat J ! downstreamIdx vars phaseIdx) phaseIdx *
              mobility (curElemDat J ! downstreamIdx vars phaseIdx) phaseIdx *
              massfrac (curElemDat J ! downstreamIdx vars phaseIdx) compIdx phaseIdx)))"
proof -
  have "computeAdvectiveFlux tt J flux vars ! comp2Mass tt compIdx =
      flux ! comp2Mass tt compIdx + (\<Sum>p<numPhases tt. advTerm tt J vars p compIdx)"
    unfolding computeAdvectiveFlux_addTo by (rule nth_phase_comp [OF assms(1,2,3)])
  then show ?thesis
    by (simp only: advTerm_blend [OF assms(4,5)])
qed

text \<open>
  Claim C2. Let the upwind weight \<open>mobilityUpwindAlpha\<close> lie between zero and one. For
  every face, that is for all flux data \<open>vars\<close>, \<open>computeAdvectiveFlux\<close> adds to the slot
  of every component the sum over the phases of \<open>vDarcyNormal[phase]\<close> times the blend
  \<open>alpha * upstream + (1 - alpha) * downstream\<close> of density times mobility times mass
  fraction. With the weight set to one what is added is the upstream formula alone, with
  the weight set to zero the downstream formula alone.
\<close>

theorem computeAdvectiveFlux_blend:
  assumes "inj_on (comp2Mass tt) {..<numComponents tt}"
    and "compIdx < numComponents tt"
    and "comp2Mass tt compIdx < length flux"
    and "0 \<le> mobilityUpwindAlpha tt" and "mobilityUpwindAlpha tt \<le> 1"
  shows
   "computeAdvectiveFlux tt J flux vars ! comp2Mass tt compIdx =
      flux ! comp2Mass tt compIdx +
      (\<Sum>phaseIdx<numPhases tt.
         vDarcyNormal vars phaseIdx *
           (mobilityUpwindAlpha tt *
              (density (curElemDat J ! upstreamIdx vars phaseIdx) phaseIdx *
               mobility (curElemDat J ! upstreamIdx vars phaseIdx) phaseIdx *
               massfrac (curElemDat J ! upstreamIdx vars phaseIdx) compIdx phaseIdx) +
            (1 - mobilityUpwindAlpha tt) *
              (density (curElemDat J ! downstreamIdx vars phaseIdx) phaseIdx *
               mobility (curElemDat J ! downstreamIdx vars phaseIdx) phaseIdx *
               massfrac (curElemDat J ! downstreamIdx vars phaseIdx) compIdx phaseIdx)))
    \<and>
    computeAdvectiveFlux (tt\<lparr>mobilityUpwindAlpha := 1\<rparr>) J flux vars ! comp2Mass tt compIdx =
      flux ! comp2Mass tt compIdx +
      (\<Sum>phaseIdx<numPhases tt.
         vDarcyNormal vars phaseIdx *
           (density (curElemDat J ! upstreamIdx vars phaseIdx) phaseIdx *
            mobility (curElemDat J ! upstreamIdx vars phaseIdx) phaseIdx *
            massfrac (curElemDat J ! upstreamIdx vars phaseIdx) compIdx phaseIdx))
    \<and>
    computeAdvectiveFlux (tt\<lparr>mobilityUpwindAlpha := 0\<rparr>) J flux vars ! comp2Mass tt compIdx =
      flux ! comp2Mass tt compIdx +
      (\<Sum>phaseIdx<numPhases tt.
         vDarcyNormal vars phaseIdx *
           (density (curElemDat J ! downstreamIdx vars phaseIdx) phaseIdx *
            mobility (curElemDat J ! downstreamIdx vars phaseIdx) phaseIdx *
            massfrac (curElemDat J ! downstreamIdx vars phaseIdx) compIdx phaseIdx))"
proof (intro conjI)
  show "computeAdvectiveFlux tt J flux vars ! comp2Mass tt compIdx =
      flux ! comp2Mass tt compIdx +
      (\<Sum>phaseIdx<numPhases tt.
         vDarcyNormal vars phaseIdx *
           (mobilityUpwindAlpha tt *
              (density (curElemDat J ! upstreamIdx vars phaseIdx) phaseIdx *
               mobility (curElemDat J ! upstreamIdx vars phaseIdx) phaseIdx *
               massfrac (curElemDat J ! upstreamIdx vars phaseIdx) compIdx phaseIdx) +
            (1 - mobilityUpwindAlpha tt) *
              (density (curElemDat J ! downstreamIdx vars phaseIdx) phaseIdx *
               mobility (curElemDat J ! downstreamIdx vars phaseIdx) phaseIdx *
               massfrac (curElemDat J ! downstreamIdx vars phaseIdx) compIdx phaseIdx)))"
    by (rule computeAdvectiveFlux_nth [OF assms])
next
  show "computeAdvectiveFlux (tt\<lparr>mobilityUpwindAlpha := 1\<rparr>) J flux vars ! comp2Mass tt compIdx =
      flux ! comp2Mass tt compIdx +
      (\<Sum>phaseIdx<numPhases tt.
         vDarcyNormal vars phaseIdx *
           (density (curElemDat J ! upstreamIdx vars phaseIdx) phaseIdx *
            mobility (curElemDat J ! upstreamIdx vars phaseIdx) phaseIdx *
            massfrac (curElemDat J ! upstreamIdx vars phaseIdx) compIdx phaseIdx))"
    using assms(1,2,3)
      computeAdvectiveFlux_nth [of "tt\<lparr>mobilityUpwindAlpha := 1\<rparr>" compIdx flux J vars]
    by simp
next
  show "computeAdvectiveFlux (tt\<lparr>mobilityUpwindAlpha := 0\<rparr>) J flux vars ! comp2Mass tt compIdx =
      flux ! comp2Mass tt compIdx +
      (\<Sum>phaseIdx<numPhases tt.
         vDarcyNormal vars phaseIdx *
           (density (curElemDat J ! downstreamIdx vars phaseIdx) phaseIdx *
            mobility (curElemDat J ! downstreamIdx vars phaseIdx) phaseIdx *
            massfrac (curElemDat J ! downstreamIdx vars phaseIdx) compIdx phaseIdx))"
    using assms(1,2,3)
      computeAdvectiveFlux_nth [of "tt\<lparr>mobilityUpwindAlpha := 0\<rparr>" compIdx flux J vars]
    by simp
qed

theorem computeAdvectiveFlux_blend_witness:
  "inj_on (comp2Mass (exampleTypeTag\<lparr>mobilityUpwindAlpha := 1 / 4\<rparr>))
     {..<numComponents (exampleTypeTag\<lparr>mobilityUpwindAlpha := 1 / 4\<rparr>)} \<and>
   0 < numComponents (exampleTypeTag\<lparr>mobilityUpwindAlpha := 1 / 4\<rparr>) \<and>
   comp2Mass (exampleTypeTag\<lparr>mobilityUpwindAlpha := 1 / 4\<rparr>) 0 < length [0, 0 :: real] \<and>
   0 \<le> mobilityUpwindAlpha (exampleTypeTag\<lparr>mobilityUpwindAlpha := 1 / 4\<rparr>) \<and>
   mobilityUpwindAlpha (exampleTypeTag\<lparr>mobilityUpwindAlpha := 1 / 4\<rparr>) \<le> 1 \<and>
   computeAdvectiveFlux (exampleTypeTag\<lparr>mobilityUpwindAlpha := 1 / 4\<rparr>)
     (exampleJacobian 1 False) [0, 0] exampleFluxData ! 0 = 4495 / 16"
proof -
  have h: "inj_on (comp2Mass (exampleTypeTag\<lparr>mobilityUpwindAlpha := 1 / 4\<rparr>))
       {..<numComponents (exampleTypeTag\<lparr>mobilityUpwindAlpha := 1 / 4\<rparr>)}"
     "0 < numComponents (exampleTypeTag\<lparr>mobilityUpwindAlpha := 1 / 4\<rparr>)"
     "comp2Mass (exampleTypeTag\<lparr>mobilityUpwindAlpha := 1 / 4\<rparr>) 0 < length [0, 0 :: real]"
     "0 \<le> mobilityUpwindAlpha (exampleTypeTag\<lparr>mobilityUpwindAlpha := 1 / 4\<rparr>)"
     "mobilityUpwindAlpha (exampleTypeTag\<lparr>mobilityUpwindAlpha := 1 / 4\<rparr>) \<le> 1"
    by (simp_all add: exampleTypeTag_sel inj_on_def)
  show ?thesis
    using h computeAdvectiveFlux_blend [OF h, of "exampleJacobian 1 False" exampleFluxData,
        THEN conjunct1]
    by (simp add: exampleTypeTag_sel exampleJacobian_sel exampleVertexData_sel
          exampleFluxData_sel lessThan_two)
qed

section \<open>Diffusive flux\<close>

text \<open>
  Claim C3. For all flux data, each of the two scalars of \<open>computeDiffusiveFlux\<close>, one
  for each phase (diffusion coefficient times density times the concentration gradient
  dotted with the face normal), is added to the slot of one component and subtracted
  from the slot of the other: the scalar of the wetting phase is added to the
  non-wetting component and taken from the wetting component, the scalar of the
  non-wetting phase the other way round. So what the call adds in total to the wetting
  component is the negative of what it adds to the non-wetting component. The two slots
  are distinct and inside the vector.
\<close>

theorem computeDiffusiveFlux_antisymmetric:
  assumes "comp2Mass tt (wComp tt) \<noteq> comp2Mass tt (nComp tt)"
    and "comp2Mass tt (wComp tt) < length flux"
    and "comp2Mass tt (nComp tt) < length flux"
  shows "computeDiffusiveFlux tt flux vars ! comp2Mass tt (nComp tt) =
           flux ! comp2Mass tt (nComp tt)
             + diffusiveScalar vars (wPhase tt) - diffusiveScalar vars (nPhase tt)
       \<and> computeDiffusiveFlux tt flux vars ! comp2Mass tt (wComp tt) =
           flux ! comp2Mass tt (wComp tt)
             - diffusiveScalar vars (wPhase tt) + diffusiveScalar vars (nPhase tt)
       \<and> computeDiffusiveFlux tt flux vars ! comp2Mass tt (wComp tt)
             - flux ! comp2Mass tt (wComp tt) =
           - (computeDiffusiveFlux tt flux vars ! comp2Mass tt (nComp tt)
                - flux ! comp2Mass tt (nComp tt))"
  using assms
  by (simp add: computeDiffusiveFlux_def Let_def nth_addTo nth_subFrom length_addTo
        length_subFrom)

theorem computeDiffusiveFlux_antisymmetric_witness:
  "comp2Mass exampleTypeTag (wComp exampleTypeTag) \<noteq> comp2Mass exampleTypeTag (nComp exampleTypeTag) \<and>
   comp2Mass exampleTypeTag (wComp exampleTypeTag) < length [10, 20 :: real] \<and>
   comp2Mass exampleTypeTag (nComp exampleTypeTag) < length [10, 20 :: real] \<and>
   computeDiffusiveFlux exampleTypeTag [10, 20] exampleFluxData ! 0 = - 364 \<and>
   computeDiffusiveFlux exampleTypeTag [10, 20] exampleFluxData ! 1 = 394"
proof -
  have h: "comp2Mass exampleTypeTag (wComp exampleTypeTag) \<noteq>
       comp2Mass exampleTypeTag (nComp exampleTypeTag)"
     "comp2Mass exampleTypeTag (wComp exampleTypeTag) < length [10, 20 :: real]"
     "comp2Mass exampleTypeTag (nComp exampleTypeTag) < length [10, 20 :: real]"
    by (simp_all add: exampleTypeTag_sel)
  show ?thesis
    using h computeDiffusiveFlux_antisymmetric [OF h, of exampleFluxData]
    by (simp add: exampleTypeTag_sel exampleFluxData_sel diffusiveScalar_def dot_def)
qed

section \<open>The variable switch: what a call writes\<close>

lemma nth_setEntry_other: "j \<noteq> i \<Longrightarrow> setEntry sol i k v ! j = sol ! j"
  by (simp add: setEntry_def)

lemma length_setEntry: "length (setEntry sol i k v) = length sol"
  by (simp add: setEntry_def)

lemma nth_setEntry_same_other: "k' \<noteq> k \<Longrightarrow> setEntry sol i k v ! i ! k' = sol ! i ! k'"
  by (cases "i < length sol") (simp_all add: setEntry_def not_less list_update_beyond)

lemma length_nth_setEntry: "length (setEntry sol i k v ! j) = length (sol ! j)"
  by (cases "i < length sol"; cases "j = i") (simp_all add: setEntry_def not_less list_update_beyond)

lemma nth_setEntry_slot:
  "i < length sol \<Longrightarrow> k < length (sol ! i) \<Longrightarrow> setEntry sol i k v ! i ! k = v"
  by (simp add: setEntry_def)

lemma primaryVarSwitch_members:
  "switchFlag (snd (snd (primaryVarSwitch tt pb globalSol globalIdx globalPos J))) = switchFlag J"
  "curElemDat (snd (snd (primaryVarSwitch tt pb globalSol globalIdx globalPos J))) = curElemDat J"
  "prevElemDat (snd (snd (primaryVarSwitch tt pb globalSol globalIdx globalPos J))) = prevElemDat J"
  by (simp_all add: primaryVarSwitch_def Let_def split_def)

lemma primaryVarSwitch_staticVertexDat:
  "\<exists>a b. staticVertexDat (snd (snd (primaryVarSwitch tt pb globalSol globalIdx globalPos J))) =
     (staticVertexDat J)[globalIdx :=
        (staticVertexDat J ! globalIdx)\<lparr>phaseState := a, wasSwitched := b\<rparr>]"
  by (simp add: primaryVarSwitch_def Let_def split_def) blast

lemma switchDecision_solution:
  "fst (snd (snd (switchDecision tt pb globalSol globalIdx globalPos J vd))) = globalSol \<or>
   (\<exists>v. fst (snd (snd (switchDecision tt pb globalSol globalIdx globalPos J vd))) =
      setEntry globalSol globalIdx (switchIdx tt) v)"
  by (simp add: switchDecision_def Let_def) blast

lemma primaryVarSwitch_solution:
  "fst (snd (primaryVarSwitch tt pb globalSol globalIdx globalPos J)) = globalSol \<or>
   (\<exists>v. fst (snd (primaryVarSwitch tt pb globalSol globalIdx globalPos J)) =
      setEntry globalSol globalIdx (switchIdx tt) v)"
  using switchDecision_solution [of tt pb globalSol globalIdx globalPos J]
  by (simp add: primaryVarSwitch_def Let_def split_def)

lemma switchDecision_no_transition:
  assumes "nPhaseOnly tt \<noteq> bothPhases tt" and "wPhaseOnly tt \<noteq> bothPhases tt"
    and "fst (snd (switchDecision tt pb globalSol globalIdx globalPos J vd)) =
           phaseState (staticVertexDat J ! globalIdx)"
  shows "fst (snd (snd (switchDecision tt pb globalSol globalIdx globalPos J vd))) = globalSol"
  using assms
  by (simp add: switchDecision_def Let_def split: if_splits)

lemma primaryVarSwitch_no_transition:
  assumes "nPhaseOnly tt \<noteq> bothPhases tt" and "wPhaseOnly tt \<noteq> bothPhases tt"
    and "\<not> fst (primaryVarSwitch tt pb globalSol globalIdx globalPos J)"
  shows "fst (snd (primaryVarSwitch tt pb globalSol globalIdx globalPos J)) = globalSol"
  using assms(3) switchDecision_no_transition [OF assms(1,2), of pb globalSol globalIdx globalPos J]
  by (simp add: primaryVarSwitch_def Let_def split_def)

lemma static_update_frame:
  fixes dat :: "StaticVertexData list"
  assumes "dat' = dat[i := (dat ! i)\<lparr>phaseState := a, wasSwitched := b\<rparr>]"
  shows "length dat' = length dat"
    and "j \<noteq> i \<Longrightarrow> dat' ! j = dat ! j"
    and "oldPhaseState (dat' ! i) = oldPhaseState (dat ! i)"
  using assms
  by (cases "i < length dat"; simp add: not_less list_update_beyond)+

section \<open>The variable switch: transitions\<close>

text \<open>
  Claim C4. Let the three phase state constants be distinct. If the vertex crosses no
  switch threshold, the call of the switch evaluation returns false and leaves the
  phase state of the vertex as it was; it also leaves the solution as it was and prints
  nothing. No threshold is crossed when, in a single-phase state, the dissolved mass
  fraction is not above the solubility limit that applies, which is the limit times
  \<open>1.01\<close> when the vertex was flagged \<open>wasSwitched\<close> and the limit itself otherwise, and
  when, with both phases present, both saturations are positive; a phase state that is
  none of the three crosses nothing. In every call, whatever the vertex data, at most
  one transition fires: each transition prints one line, and a call prints at most one.
\<close>

theorem switch_idempotent:
  assumes "globalIdx < length (staticVertexDat J)"
    and "distinct [nPhaseOnly tt, wPhaseOnly tt, bothPhases tt]"
  shows
   "(let ps = phaseState (staticVertexDat J ! globalIdx);
         was = wasSwitched (staticVertexDat J ! globalIdx);
         temp = temperature pb (globalSol ! globalIdx);
         vd = switchVertexData tt pb globalSol globalIdx globalPos J;
         xWNmax = xWN pb (pressure vd (nPhase tt)) temp;
         xAWmax = xAW pb (pressure vd (wPhase tt)) temp
     in ((ps = nPhaseOnly tt \<longrightarrow>
            massfrac vd (wComp tt) (nPhase tt) \<le> (if was then xWNmax * (1 + 1 / 100) else xWNmax)) \<and>
         (ps = wPhaseOnly tt \<longrightarrow>
            massfrac vd (nComp tt) (wPhase tt) \<le> (if was then xAWmax * (1 + 1 / 100) else xAWmax)) \<and>
         (ps = bothPhases tt \<longrightarrow>
            0 < saturation vd (nPhase tt) \<and> 0 < saturation vd (wPhase tt))
         \<longrightarrow>
         (case primaryVarSwitch tt pb globalSol globalIdx globalPos J of
            (r, globalSol', J') \<Rightarrow>
              \<not> r \<and> phaseState (staticVertexDat J' ! globalIdx) = ps \<and>
              globalSol' = globalSol \<and> cout J' = cout J)) \<and>
        (case primaryVarSwitch tt pb globalSol globalIdx globalPos J of
            (r, globalSol', J') \<Rightarrow>
              \<exists>printed. cout J' = cout J @ printed \<and> length printed \<le> 1))"
  using assms
  by (auto simp add: primaryVarSwitch_def switchDecision_def Let_def split: if_splits)

theorem switch_idempotent_witness:
  "1 < length (staticVertexDat (exampleJacobian 1 False)) \<and>
   distinct [nPhaseOnly exampleTypeTag, wPhaseOnly exampleTypeTag, bothPhases exampleTypeTag] \<and>
   phaseState (staticVertexDat (exampleJacobian 1 False) ! 1) = wPhaseOnly exampleTypeTag \<and>
   massfrac (switchVertexData exampleTypeTag exampleProblem
               [ [100000, 1 / 4], [100000, 5 / 1000] ] 1 [0, 0] (exampleJacobian 1 False)) 1 0
     \<le> xAW exampleProblem 100000 283 \<and>
   \<not> fst (primaryVarSwitch exampleTypeTag exampleProblem
            [ [100000, 1 / 4], [100000, 5 / 1000] ] 1 [0, 0] (exampleJacobian 1 False)) \<and>
   phaseState (staticVertexDat (snd (snd (primaryVarSwitch exampleTypeTag exampleProblem
            [ [100000, 1 / 4], [100000, 5 / 1000] ] 1 [0, 0] (exampleJacobian 1 False)))) ! 1) = 1"
  using switch_idempotent [where globalIdx = 1 and J = "exampleJacobian 1 False"
      and tt = exampleTypeTag and pb = exampleProblem
      and globalSol = "[ [100000, 1 / 4], [100000, 5 / 1000] ]" and globalPos = "[0, 0]"]
  by (simp add: Let_def split_def exampleSwitchVertexData exampleTypeTag_sel exampleJacobian_sel
        exampleProblem_sel)


text \<open>
  Claim C5. Take a vertex in a single-phase state, \<open>x\<close> its dissolved mass fraction (the
  wetting component in the non-wetting phase, or the non-wetting component in the
  wetting phase) and \<open>xmax\<close> the unscaled solubility limit of that state. If the vertex
  is flagged \<open>wasSwitched\<close> and \<open>x\<close> is at \<open>xmax\<close> or above it but not above \<open>1.01\<close> times
  \<open>xmax\<close>, the switch evaluation makes no transition: it returns false and the phase state
  and the solution stay as they were. Whether or not the scaled threshold fired, the call
  overwrites \<open>wasSwitched\<close> with the outcome \<open>x > xmax\<close> of the test against the unscaled
  limit.
\<close>

theorem switch_hysteresis:
  assumes "globalIdx < length (staticVertexDat J)"
    and "nPhaseOnly tt \<noteq> wPhaseOnly tt"
    and "phaseState (staticVertexDat J ! globalIdx) = nPhaseOnly tt \<and>
           x = massfrac (switchVertexData tt pb globalSol globalIdx globalPos J) (wComp tt) (nPhase tt) \<and>
           xmax = xWN pb (pressure (switchVertexData tt pb globalSol globalIdx globalPos J) (nPhase tt))
                    (temperature pb (globalSol ! globalIdx))
         \<or>
         phaseState (staticVertexDat J ! globalIdx) = wPhaseOnly tt \<and>
           x = massfrac (switchVertexData tt pb globalSol globalIdx globalPos J) (nComp tt) (wPhase tt) \<and>
           xmax = xAW pb (pressure (switchVertexData tt pb globalSol globalIdx globalPos J) (wPhase tt))
                    (temperature pb (globalSol ! globalIdx))"
  shows
   "(case primaryVarSwitch tt pb globalSol globalIdx globalPos J of
       (r, globalSol', J') \<Rightarrow>
         (wasSwitched (staticVertexDat J ! globalIdx) \<and> xmax \<le> x \<and> x \<le> xmax * (1 + 1 / 100)
            \<longrightarrow> \<not> r \<and>
                phaseState (staticVertexDat J' ! globalIdx) = phaseState (staticVertexDat J ! globalIdx) \<and>
                globalSol' = globalSol) \<and>
         wasSwitched (staticVertexDat J' ! globalIdx) = (x > xmax))"
  using assms(3)
proof (elim disjE conjE)
  assume "phaseState (staticVertexDat J ! globalIdx) = nPhaseOnly tt"
    and "x = massfrac (switchVertexData tt pb globalSol globalIdx globalPos J) (wComp tt) (nPhase tt)"
    and "xmax = xWN pb (pressure (switchVertexData tt pb globalSol globalIdx globalPos J) (nPhase tt))
                    (temperature pb (globalSol ! globalIdx))"
  then show ?thesis
    using assms(1) by (simp add: primaryVarSwitch_def switchDecision_def Let_def)
next
  assume "phaseState (staticVertexDat J ! globalIdx) = wPhaseOnly tt"
    and "x = massfrac (switchVertexData tt pb globalSol globalIdx globalPos J) (nComp tt) (wPhase tt)"
    and "xmax = xAW pb (pressure (switchVertexData tt pb globalSol globalIdx globalPos J) (wPhase tt))
                    (temperature pb (globalSol ! globalIdx))"
  then show ?thesis
    using assms(1,2) by (simp add: primaryVarSwitch_def switchDecision_def Let_def)
qed

theorem switch_hysteresis_witness:
  "1 < length (staticVertexDat (exampleJacobian 1 True)) \<and>
   nPhaseOnly exampleTypeTag \<noteq> wPhaseOnly exampleTypeTag \<and>
   phaseState (staticVertexDat (exampleJacobian 1 True) ! 1) = wPhaseOnly exampleTypeTag \<and>
   wasSwitched (staticVertexDat (exampleJacobian 1 True) ! 1) \<and>
   massfrac (switchVertexData exampleTypeTag exampleProblem
               [ [100000, 1 / 4], [100000, 201 / 20000] ] 1 [0, 0] (exampleJacobian 1 True)) 1 0
     = 201 / 20000 \<and>
   xAW exampleProblem 100000 283 = 1 / 100 \<and>
   (1 / 100 :: real) \<le> 201 / 20000 \<and> (201 / 20000 :: real) \<le> 1 / 100 * (1 + 1 / 100) \<and>
   \<not> fst (primaryVarSwitch exampleTypeTag exampleProblem
            [ [100000, 1 / 4], [100000, 201 / 20000] ] 1 [0, 0] (exampleJacobian 1 True)) \<and>
   phaseState (staticVertexDat (snd (snd (primaryVarSwitch exampleTypeTag exampleProblem
            [ [100000, 1 / 4], [100000, 201 / 20000] ] 1 [0, 0] (exampleJacobian 1 True)))) ! 1) = 1 \<and>
   wasSwitched (staticVertexDat (snd (snd (primaryVarSwitch exampleTypeTag exampleProblem
            [ [100000, 1 / 4], [100000, 201 / 20000] ] 1 [0, 0] (exampleJacobian 1 True)))) ! 1)"
  using switch_hysteresis [where globalIdx = 1 and J = "exampleJacobian 1 True"
      and tt = exampleTypeTag and pb = exampleProblem
      and globalSol = "[ [100000, 1 / 4], [100000, 201 / 20000] ]" and globalPos = "[0, 0]"
      and x = "201 / 20000" and xmax = "1 / 100"]
  by (simp add: split_def exampleSwitchVertexData exampleTypeTag_sel exampleJacobian_sel
        exampleProblem_sel)

text \<open>
  Claim C6. A vertex in the wetting-only state, not flagged \<open>wasSwitched\<close>, whose
  non-wetting mass fraction in the wetting phase is \<open>0.012\<close> while the solubility limit
  \<open>xAWmax\<close> is \<open>0.01\<close>, goes to the both-phases state on a switch evaluation, which
  returns true. A following evaluation of that vertex, on any solution \<open>globalSol2\<close> for
  which the non-wetting saturation comes out as zero, takes it back to the wetting-only
  state and returns true, and it sets the switch slot of the vertex to the solubility
  limit \<open>xAW\<close> at the pressure and temperature of that evaluation; the pressure passed
  is the non-wetting phase pressure of the vertex data just computed.
\<close>

theorem switch_example:
  assumes "globalIdx < length (staticVertexDat J)"
    and "globalIdx < length globalSol2" and "switchIdx tt < length (globalSol2 ! globalIdx)"
    and "distinct [nPhaseOnly tt, wPhaseOnly tt, bothPhases tt]"
    and "phaseState (staticVertexDat J ! globalIdx) = wPhaseOnly tt"
    and "\<not> wasSwitched (staticVertexDat J ! globalIdx)"
    and "massfrac (switchVertexData tt pb globalSol globalIdx globalPos J) (nComp tt) (wPhase tt) = 12 / 1000"
    and "xAW pb (pressure (switchVertexData tt pb globalSol globalIdx globalPos J) (wPhase tt))
           (temperature pb (globalSol ! globalIdx)) = 1 / 100"
    and "primaryVarSwitch tt pb globalSol globalIdx globalPos J = (r1, globalSol1, J1)"
    and "saturation (switchVertexData tt pb globalSol2 globalIdx globalPos J1) (nPhase tt) = 0"
    and "primaryVarSwitch tt pb globalSol2 globalIdx globalPos J1 = (r2, globalSol3, J2)"
  shows "r1 \<and> phaseState (staticVertexDat J1 ! globalIdx) = bothPhases tt \<and>
         r2 \<and> phaseState (staticVertexDat J2 ! globalIdx) = wPhaseOnly tt \<and>
         globalSol3 ! globalIdx ! switchIdx tt =
           xAW pb (pressure (switchVertexData tt pb globalSol2 globalIdx globalPos J1) (nPhase tt))
             (temperature pb (globalSol2 ! globalIdx))"
proof -
  have first: "r1 \<and> phaseState (staticVertexDat J1 ! globalIdx) = bothPhases tt \<and>
      length (staticVertexDat J1) = length (staticVertexDat J)"
    using assms(1,4-9)
    by (auto simp add: primaryVarSwitch_def switchDecision_def Let_def split: if_splits)
  then have len: "globalIdx < length (staticVertexDat J1)"
    using assms(1) by simp
  have "r2 \<and> phaseState (staticVertexDat J2 ! globalIdx) = wPhaseOnly tt \<and>
         globalSol3 ! globalIdx ! switchIdx tt =
           xAW pb (pressure (switchVertexData tt pb globalSol2 globalIdx globalPos J1) (nPhase tt))
             (temperature pb (globalSol2 ! globalIdx))"
    using first len assms(2,3,4,10,11)
    by (auto simp add: primaryVarSwitch_def switchDecision_def Let_def nth_setEntry_slot
          split: if_splits)
  with first show ?thesis by simp
qed


theorem switch_example_witness:
  "phaseState (staticVertexDat (exampleJacobian 1 False) ! 1) = wPhaseOnly exampleTypeTag \<and>
   \<not> wasSwitched (staticVertexDat (exampleJacobian 1 False) ! 1) \<and>
   massfrac (switchVertexData exampleTypeTag exampleProblem exampleSolution 1 [0, 0]
               (exampleJacobian 1 False)) (nComp exampleTypeTag) (wPhase exampleTypeTag) = 12 / 1000 \<and>
   xAW exampleProblem
     (pressure (switchVertexData exampleTypeTag exampleProblem exampleSolution 1 [0, 0]
                  (exampleJacobian 1 False)) (wPhase exampleTypeTag))
     (temperature exampleProblem (exampleSolution ! 1)) = 1 / 100 \<and>
   saturation (switchVertexData exampleTypeTag exampleProblem (fst (snd exampleFirstSwitch)) 1 [0, 0]
                 (snd (snd exampleFirstSwitch))) (nPhase exampleTypeTag) = 0 \<and>
   fst exampleFirstSwitch \<and>
   phaseState (staticVertexDat (snd (snd exampleFirstSwitch)) ! 1) = 2 \<and>
   fst exampleSecondSwitch \<and>
   phaseState (staticVertexDat (snd (snd exampleSecondSwitch)) ! 1) = 1 \<and>
   pressure (switchVertexData exampleTypeTag exampleProblem (fst (snd exampleFirstSwitch)) 1 [0, 0]
               (snd (snd exampleFirstSwitch))) (nPhase exampleTypeTag) = 101000 \<and>
   fst (snd exampleSecondSwitch) ! 1 ! 1 = 101 / 10000"
proof -
  have h: "1 < length (staticVertexDat (exampleJacobian 1 False))"
    "1 < length (fst (snd exampleFirstSwitch))"
    "switchIdx exampleTypeTag < length (fst (snd exampleFirstSwitch) ! 1)"
    "distinct [nPhaseOnly exampleTypeTag, wPhaseOnly exampleTypeTag, bothPhases exampleTypeTag]"
    "phaseState (staticVertexDat (exampleJacobian 1 False) ! 1) = wPhaseOnly exampleTypeTag"
    "\<not> wasSwitched (staticVertexDat (exampleJacobian 1 False) ! 1)"
    "massfrac (switchVertexData exampleTypeTag exampleProblem exampleSolution 1 [0, 0]
               (exampleJacobian 1 False)) (nComp exampleTypeTag) (wPhase exampleTypeTag) = 12 / 1000"
    "xAW exampleProblem
       (pressure (switchVertexData exampleTypeTag exampleProblem exampleSolution 1 [0, 0]
                  (exampleJacobian 1 False)) (wPhase exampleTypeTag))
       (temperature exampleProblem (exampleSolution ! 1)) = 1 / 100"
    "primaryVarSwitch exampleTypeTag exampleProblem exampleSolution 1 [0, 0]
       (exampleJacobian 1 False) =
       (fst exampleFirstSwitch, fst (snd exampleFirstSwitch), snd (snd exampleFirstSwitch))"
    "saturation (switchVertexData exampleTypeTag exampleProblem (fst (snd exampleFirstSwitch)) 1 [0, 0]
                 (snd (snd exampleFirstSwitch))) (nPhase exampleTypeTag) = 0"
    "primaryVarSwitch exampleTypeTag exampleProblem (fst (snd exampleFirstSwitch)) 1 [0, 0]
       (snd (snd exampleFirstSwitch)) =
       (fst exampleSecondSwitch, fst (snd exampleSecondSwitch), snd (snd exampleSecondSwitch))"
  proof -
    show "primaryVarSwitch exampleTypeTag exampleProblem exampleSolution 1 [0, 0]
       (exampleJacobian 1 False) =
       (fst exampleFirstSwitch, fst (snd exampleFirstSwitch), snd (snd exampleFirstSwitch))"
      by (simp add: exampleFirstSwitch_def)
    show "primaryVarSwitch exampleTypeTag exampleProblem (fst (snd exampleFirstSwitch)) 1 [0, 0]
       (snd (snd exampleFirstSwitch)) =
       (fst exampleSecondSwitch, fst (snd exampleSecondSwitch), snd (snd exampleSecondSwitch))"
      by (simp add: exampleSecondSwitch_def)
  qed (simp_all add: exampleFirstSwitch_sel exampleSwitchVertexData exampleTypeTag_sel
          exampleJacobian_sel exampleProblem_sel exampleSolution_def)
  show ?thesis
    using h(5,6,7,8,10) switch_example [OF h]
    by (simp add: exampleSwitchVertexData exampleFirstSwitch_sel exampleTypeTag_sel
          exampleProblem_sel)
qed


section \<open>The variable switch: frame\<close>

text \<open>
  Claim C10. Let the both-phases constant differ from the two single-phase constants
  and the pressure index from the switch index. A call of the switch evaluation for the
  vertex \<open>globalIdx\<close> that returns false leaves the global solution as it was. Every
  call leaves the number of vertices of the solution, all entries of every other
  vertex, and of the evaluated vertex the number of entries and all of them but the
  switch slot as they were, the pressure slot among them. Of the static vertex data it
  leaves the length, the record of every other vertex and the \<open>oldPhaseState\<close> of the
  evaluated vertex as they were, so that \<open>phaseState\<close> and \<open>wasSwitched\<close> of the evaluated
  vertex are all it writes there; \<open>switchFlag_\<close> and the element data are unchanged.
\<close>

theorem switch_frame:
  assumes "nPhaseOnly tt \<noteq> bothPhases tt" and "wPhaseOnly tt \<noteq> bothPhases tt"
    and "pressureIdx tt \<noteq> switchIdx tt"
  shows
   "(case primaryVarSwitch tt pb globalSol globalIdx globalPos J of
       (r, globalSol', J') \<Rightarrow>
         (\<not> r \<longrightarrow> globalSol' = globalSol) \<and>
         length globalSol' = length globalSol \<and>
         (\<forall>j. j \<noteq> globalIdx \<longrightarrow> globalSol' ! j = globalSol ! j) \<and>
         length (globalSol' ! globalIdx) = length (globalSol ! globalIdx) \<and>
         (\<forall>k. k \<noteq> switchIdx tt \<longrightarrow> globalSol' ! globalIdx ! k = globalSol ! globalIdx ! k) \<and>
         globalSol' ! globalIdx ! pressureIdx tt = globalSol ! globalIdx ! pressureIdx tt \<and>
         length (staticVertexDat J') = length (staticVertexDat J) \<and>
         (\<forall>j. j \<noteq> globalIdx \<longrightarrow> staticVertexDat J' ! j = staticVertexDat J ! j) \<and>
         oldPhaseState (staticVertexDat J' ! globalIdx) = oldPhaseState (staticVertexDat J ! globalIdx) \<and>
         switchFlag J' = switchFlag J \<and>
         curElemDat J' = curElemDat J \<and>
         prevElemDat J' = prevElemDat J)"
proof -
  obtain r globalSol' J' where
    eq: "primaryVarSwitch tt pb globalSol globalIdx globalPos J = (r, globalSol', J')"
    by (cases "primaryVarSwitch tt pb globalSol globalIdx globalPos J") auto
  have quiet: "\<not> r \<longrightarrow> globalSol' = globalSol"
    using primaryVarSwitch_no_transition [OF assms(1,2), of pb globalSol globalIdx globalPos J]
    by (simp add: eq)
  have "globalSol' = globalSol \<or> (\<exists>v. globalSol' = setEntry globalSol globalIdx (switchIdx tt) v)"
    using primaryVarSwitch_solution [of tt pb globalSol globalIdx globalPos J] by (simp add: eq)
  then have sol: "length globalSol' = length globalSol"
      "\<forall>j. j \<noteq> globalIdx \<longrightarrow> globalSol' ! j = globalSol ! j"
      "length (globalSol' ! globalIdx) = length (globalSol ! globalIdx)"
      "\<forall>k. k \<noteq> switchIdx tt \<longrightarrow> globalSol' ! globalIdx ! k = globalSol ! globalIdx ! k"
    by (auto simp add: length_setEntry nth_setEntry_other length_nth_setEntry nth_setEntry_same_other)
  obtain a b where "staticVertexDat J' =
     (staticVertexDat J)[globalIdx := (staticVertexDat J ! globalIdx)\<lparr>phaseState := a, wasSwitched := b\<rparr>]"
    using primaryVarSwitch_staticVertexDat [of tt pb globalSol globalIdx globalPos J]
    by (auto simp add: eq)
  note dat = static_update_frame [OF this]
  have mem: "switchFlag J' = switchFlag J" "curElemDat J' = curElemDat J"
      "prevElemDat J' = prevElemDat J"
    using primaryVarSwitch_members [of tt pb globalSol globalIdx globalPos J] by (simp_all add: eq)
  show ?thesis
    unfolding eq using quiet sol dat mem assms(3) by simp
qed

theorem switch_frame_witness:
  "nPhaseOnly exampleTypeTag \<noteq> bothPhases exampleTypeTag \<and>
   wPhaseOnly exampleTypeTag \<noteq> bothPhases exampleTypeTag \<and>
   pressureIdx exampleTypeTag \<noteq> switchIdx exampleTypeTag \<and>
   fst (snd exampleFirstSwitch) ! 1 ! pressureIdx exampleTypeTag = 100000 \<and>
   fst (snd exampleFirstSwitch) ! 0 = [100000, 1 / 4] \<and>
   staticVertexDat (snd (snd exampleFirstSwitch)) ! 0 =
     \<lparr>phaseState = 2, wasSwitched = False, oldPhaseState = 2\<rparr> \<and>
   oldPhaseState (staticVertexDat (snd (snd exampleFirstSwitch)) ! 1) = 0 \<and>
   \<not> fst (primaryVarSwitch exampleTypeTag exampleProblem exampleSolution 0 [0, 0]
            (exampleJacobian 1 False)) \<and>
   fst (snd (primaryVarSwitch exampleTypeTag exampleProblem exampleSolution 0 [0, 0]
            (exampleJacobian 1 False))) = exampleSolution"
proof -
  have h: "nPhaseOnly exampleTypeTag \<noteq> bothPhases exampleTypeTag"
    "wPhaseOnly exampleTypeTag \<noteq> bothPhases exampleTypeTag"
    "pressureIdx exampleTypeTag \<noteq> switchIdx exampleTypeTag"
    by (simp_all add: exampleTypeTag_sel)
  have quiet: "\<not> fst (primaryVarSwitch exampleTypeTag exampleProblem exampleSolution 0 [0, 0]
            (exampleJacobian 1 False))"
    by (simp add: exampleSolution_def primaryVarSwitch_def switchDecision_def Let_def split_def
          exampleSwitchVertexData exampleTypeTag_sel exampleJacobian_sel exampleProblem_sel)
  have still: "fst (snd (primaryVarSwitch exampleTypeTag exampleProblem exampleSolution 0 [0, 0]
            (exampleJacobian 1 False))) = exampleSolution"
    using quiet switch_frame [OF h, where pb = exampleProblem and globalSol = exampleSolution
        and globalIdx = 0 and globalPos = "[0, 0]" and J = "exampleJacobian 1 False"]
    by (simp add: split_def)
  have "(0::nat) \<noteq> 1"
    by simp
  then show ?thesis
    unfolding exampleFirstSwitch_def
    using h quiet still
      switch_frame [OF h, where pb = exampleProblem and globalSol = exampleSolution
        and globalIdx = 1 and globalPos = "[0, 0]" and J = "exampleJacobian 1 False"]
    by (simp add: split_def exampleTypeTag_sel exampleSolution_def exampleJacobian_sel)
qed

section \<open>Rollback\<close>

lemma foldl_update_upt:
  "n \<le> length dat \<Longrightarrow>
   length (foldl (\<lambda>d i. d[i := g (d ! i)]) dat [0..<n]) = length dat \<and>
   (\<forall>i<length dat. foldl (\<lambda>d i. d[i := g (d ! i)]) dat [0..<n] ! i =
        (if i < n then g (dat ! i) else dat ! i))"
proof (induction n)
  case 0
  then show ?case by simp
next
  case (Suc n)
  then show ?case by (simp add: nth_list_update less_Suc_eq)
qed

lemma primaryVarSwitch_oldPhaseState:
  "length (staticVertexDat (snd (snd (primaryVarSwitch tt pb sol i pos J)))) =
     length (staticVertexDat J) \<and>
   oldPhaseState (staticVertexDat (snd (snd (primaryVarSwitch tt pb sol i pos J))) ! j) =
     oldPhaseState (staticVertexDat J ! j)"
proof -
  obtain a b where "staticVertexDat (snd (snd (primaryVarSwitch tt pb sol i pos J))) =
     (staticVertexDat J)[i := (staticVertexDat J ! i)\<lparr>phaseState := a, wasSwitched := b\<rparr>]"
    using primaryVarSwitch_staticVertexDat [of tt pb sol i pos J] by auto
  note dat = static_update_frame [OF this]
  show ?thesis
    using dat(1) dat(2) [of j] dat(3) by (cases "j = i") simp_all
qed

lemma switchLoop_oldPhaseState:
  "length (staticVertexDat (snd (snd (switchLoop tt pb vs (w, sol, J))))) =
     length (staticVertexDat J) \<and>
   oldPhaseState (staticVertexDat (snd (snd (switchLoop tt pb vs (w, sol, J)))) ! j) =
     oldPhaseState (staticVertexDat J ! j)"
proof (induction vs arbitrary: w sol J)
  case Nil
  then show ?case by simp
next
  case (Cons v vs)
  obtain r sol' J' where eq: "primaryVarSwitch tt pb sol (fst v) (snd v) J = (r, sol', J')"
    by (cases "primaryVarSwitch tt pb sol (fst v) (snd v) J") auto
  from primaryVarSwitch_oldPhaseState [of tt pb sol "fst v" "snd v" J j]
  have "length (staticVertexDat J') = length (staticVertexDat J) \<and>
      oldPhaseState (staticVertexDat J' ! j) = oldPhaseState (staticVertexDat J ! j)"
    by (simp add: eq)
  with Cons.IH [of "r \<or> w" sol' J'] show ?case
    by (simp add: eq)
qed

text \<open>
  Claim C7. Let \<open>numVertices\<close> be the size of \<open>staticVertexDat_\<close>, as the constructor makes
  it. After \<open>resetPhaseState\<close> the current phase state of every vertex equals its old
  phase state, which the reset leaves untouched, whatever the object held before. In
  particular, after any pass of switch evaluations over any list of vertices, the
  reset gives every vertex the old phase state it had before that pass.
\<close>

theorem resetPhaseState_rollback:
  assumes "numVertices = length (staticVertexDat J)"
  shows "length (staticVertexDat (resetPhaseState numVertices J)) = length (staticVertexDat J) \<and>
    (\<forall>i<length (staticVertexDat J).
       phaseState (staticVertexDat (resetPhaseState numVertices J) ! i) =
         oldPhaseState (staticVertexDat (resetPhaseState numVertices J) ! i) \<and>
       oldPhaseState (staticVertexDat (resetPhaseState numVertices J) ! i) =
         oldPhaseState (staticVertexDat J ! i)) \<and>
    (\<forall>i<length (staticVertexDat J).
       phaseState (staticVertexDat (resetPhaseState numVertices
           (snd (snd (switchLoop tt pb vs (w, sol, J))))) ! i) =
         oldPhaseState (staticVertexDat J ! i))"
proof -
  have reset: "length (staticVertexDat (resetPhaseState (length (staticVertexDat K)) K)) =
      length (staticVertexDat K) \<and>
    (\<forall>i<length (staticVertexDat K).
       phaseState (staticVertexDat (resetPhaseState (length (staticVertexDat K)) K) ! i) =
         oldPhaseState (staticVertexDat K ! i) \<and>
       oldPhaseState (staticVertexDat (resetPhaseState (length (staticVertexDat K)) K) ! i) =
         oldPhaseState (staticVertexDat K ! i))" for K :: "'a Jacobian"
    using foldl_update_upt [of "length (staticVertexDat K)" "staticVertexDat K"
        "\<lambda>d. d\<lparr>phaseState := oldPhaseState d\<rparr>"]
    by (simp add: resetPhaseState_def)
  define K where "K = snd (snd (switchLoop tt pb vs (w, sol, J)))"
  have K: "length (staticVertexDat K) = length (staticVertexDat J)"
      "oldPhaseState (staticVertexDat K ! i) = oldPhaseState (staticVertexDat J ! i)" for i
    using switchLoop_oldPhaseState [of tt pb vs w sol J i] by (simp_all add: K_def)
  show ?thesis
    using reset [of J] reset [of K] K assms by (simp add: K_def)
qed

theorem resetPhaseState_rollback_witness:
  "2 = length (staticVertexDat (exampleJacobian 1 False)) \<and>
   phaseState (staticVertexDat (resetPhaseState 2 (exampleJacobian 1 False)) ! 1) = 0 \<and>
   phaseState (staticVertexDat (resetPhaseState 2 (snd (snd exampleFirstSwitch))) ! 1) = 0"
proof -
  have h: "2 = length (staticVertexDat (exampleJacobian 1 False))"
    by (simp add: exampleJacobian_sel)
  have "(1::nat) < 2"
    by simp
  then show ?thesis
    unfolding exampleFirstSwitch_def
    using h resetPhaseState_rollback [OF h, where tt = exampleTypeTag and pb = exampleProblem
        and vs = "[(1, [0, 0])]" and w = False and sol = exampleSolution]
    by (simp add: split_def exampleJacobian_sel)
qed

section \<open>Restart\<close>









section \<open>The switch flag of a partitioned run\<close>

lemma switchLoop_fst:
  "fst (switchLoop tt pb vs (w, sol, J)) = (w \<or> True \<in> set (switchResults tt pb vs sol J))"
proof (induction vs arbitrary: w sol J)
  case Nil
  then show ?case by simp
next
  case (Cons v vs)
  then show ?case by (auto split: prod.splits)
qed

lemma length_switchResults: "length (switchResults tt pb vs sol J) = length vs"
  by (induction vs arbitrary: sol J) (auto split: prod.splits)

lemma comm_max_iff: "comm_max others b = (b \<or> True \<in> set others)"
  unfolding comm_max_def
  by (induction others arbitrary: b) (auto simp add: max_def)

lemma others_and_self:
  assumes "p < length xs"
  shows "(f (xs ! p) \<or> True \<in> set (map f (take p xs @ drop (Suc p) xs))) =
     (\<exists>q<length xs. f (xs ! q))"
proof -
  have "set xs = set (take p xs @ xs ! p # drop (Suc p) xs)"
    using assms by (simp add: id_take_nth_drop [symmetric])
  then have "(\<exists>x\<in>set xs. f x) = (f (xs ! p) \<or> (\<exists>x\<in>set (take p xs @ drop (Suc p) xs). f x))"
    by auto
  moreover have "(\<exists>x\<in>set xs. f x) = (\<exists>q<length xs. f (xs ! q))"
    by (metis in_set_conv_nth)
  moreover have "(True \<in> set (map f (take p xs @ drop (Suc p) xs))) =
      (\<exists>x\<in>set (take p xs @ drop (Suc p) xs). f x)"
    by (simp only: set_map image_iff) auto
  ultimately show ?thesis by simp
qed

lemma localSwitched_iff:
  "localSwitched tt pb proc =
     (case proc of (vertices, sol, J) \<Rightarrow> True \<in> set (switchResults tt pb vertices sol J))"
  by (simp add: localSwitched_def switchLoop_fst split: prod.splits)

text \<open>
  Claim C9. In a run on several partitions, after \<open>updateStaticData\<close> has visited all
  vertices and made the collective call, the switch flag stored on every process, the
  one \<open>switched()\<close> returns, is the logical or, over all processes, of whether the switch
  evaluation of one of the vertices that process visited returned true. A transition on
  one partition makes the flag true on all of them. Every vertex of the range is
  evaluated: the loop makes one call for each.
\<close>

theorem switch_flag_reduction:
  assumes "p < length procs"
  shows "switched (snd (updateStaticData_all tt pb procs ! p)) =
     (\<exists>q<length procs. case procs ! q of (vertices, curGlobalSol, J) \<Rightarrow>
        True \<in> set (switchResults tt pb vertices curGlobalSol J))"
proof -
  obtain vertices sol J where proc: "procs ! p = (vertices, sol, J)"
    by (cases "procs ! p") auto
  have "switched (snd (updateStaticData_all tt pb procs ! p)) =
      comm_max (map (localSwitched tt pb) (take p procs @ drop (Suc p) procs))
        (localSwitched tt pb (procs ! p))"
    using assms
    by (simp add: updateStaticData_all_def updateStaticData_def proc switched_def setSwitched_def
          localSwitched_def split: prod.splits)
  also have "\<dots> = (\<exists>q<length procs. localSwitched tt pb (procs ! q))"
    unfolding comm_max_iff by (rule others_and_self [OF assms])
  finally show ?thesis by (simp add: localSwitched_iff)
qed

theorem switch_flag_reduction_witness:
  "0 < length exampleProcesses \<and>
   \<not> localSwitched exampleTypeTag exampleProblem (exampleProcesses ! 0) \<and>
   localSwitched exampleTypeTag exampleProblem (exampleProcesses ! 1) \<and>
   switched (snd (updateStaticData_all exampleTypeTag exampleProblem exampleProcesses ! 0))"
proof -
  have h: "0 < length exampleProcesses"
    by (simp add: exampleProcesses_def)
  have quiet: "\<not> localSwitched exampleTypeTag exampleProblem (exampleProcesses ! 0)"
    by (simp add: localSwitched_def exampleProcesses_def exampleSolution_def primaryVarSwitch_def
          switchDecision_def Let_def split_def exampleSwitchVertexData exampleTypeTag_sel
          exampleJacobian_sel exampleProblem_sel)
  have loud: "localSwitched exampleTypeTag exampleProblem (exampleProcesses ! 1)"
    by (simp add: localSwitched_def exampleProcesses_def exampleSolution_def primaryVarSwitch_def
          switchDecision_def Let_def split_def exampleSwitchVertexData exampleTypeTag_sel
          exampleJacobian_sel exampleProblem_sel)
  have "\<exists>q<length exampleProcesses. case exampleProcesses ! q of
      (vertices, curGlobalSol, J) \<Rightarrow>
        True \<in> set (switchResults exampleTypeTag exampleProblem vertices curGlobalSol J)"
    by (rule exI [of _ 1])
      (simp add: exampleProcesses_def exampleSolution_def primaryVarSwitch_def
          switchDecision_def Let_def split_def exampleSwitchVertexData exampleTypeTag_sel
          exampleJacobian_sel exampleProblem_sel)
  then show ?thesis
    using h quiet loud switch_flag_reduction [OF h, of exampleTypeTag exampleProblem]
    by simp
qed

end
